theory Spec2Isabelle
  imports Main "HOL-Library.Word" "HOL-Library.AList"
begin

section \<open>Python values, exceptions and datetimes\<close>

text \<open>
  The cache stores values of type \<open>Any\<close>. The values that occur in the three modules are
  \<open>None\<close>, booleans, integers, floats, strings and dictionaries with string keys. A float
  is carried as the bit pattern of its double; a dictionary as an association list in
  insertion order.
\<close>

datatype pyval =
    PyNone
  | PyBool bool
  | PyInt int
  | PyFloat "64 word"
  | PyStr string
  | PyDict "(string \<times> pyval) list"

text \<open>The exceptions that the modelled code can raise.\<close>

datatype error =
    OverflowError
  | TypeError
  | KeyError
  | AttributeError
  | HTTPException int string

text \<open>
  A naive \<open>datetime\<close> is the number of microseconds since \<open>datetime.min\<close>
  (0001-01-01T00:00:00); a \<open>timedelta\<close> is a number of microseconds. Both types are
  bounded in Python: a \<open>timedelta\<close> has at most 999999999 days in either direction and
  a \<open>datetime\<close> lies between \<open>datetime.min\<close> and \<open>datetime.max\<close>
  (9999-12-31T23:59:59.999999, ordinal day 3652059). Leaving the range raises
  \<open>OverflowError\<close>.
\<close>

type_synonym datetime = int
type_synonym timedelta = int

definition us_per_second :: int where
  "us_per_second = 1000000"

definition seconds_per_day :: int where
  "seconds_per_day = 86400"

definition max_delta_days :: int where
  "max_delta_days = 999999999"

definition datetime_max :: datetime where
  "datetime_max = 3652059 * seconds_per_day * us_per_second - 1"

definition valid_datetime :: "datetime \<Rightarrow> bool" where
  "valid_datetime t = (0 \<le> t \<and> t \<le> datetime_max)"

text \<open>\<open>timedelta(seconds=s)\<close> for an integer \<open>s\<close>.\<close>

definition timedelta_seconds :: "int \<Rightarrow> error + timedelta" where
  "timedelta_seconds s =
     (if - max_delta_days \<le> s div seconds_per_day \<and> s div seconds_per_day \<le> max_delta_days
      then Inr (s * us_per_second)
      else Inl OverflowError)"

text \<open>\<open>datetime + timedelta\<close>.\<close>

definition datetime_add :: "datetime \<Rightarrow> timedelta \<Rightarrow> error + datetime" where
  "datetime_add t d =
     (if valid_datetime (t + d) then Inr (t + d) else Inl OverflowError)"

section \<open>The cache (cache.py)\<close>

text \<open>
  \<open>Cache._store\<close> maps a key to the pair \<open>(value, expires_at)\<close>, where
  \<open>expires_at\<close> is \<open>None\<close> for an entry without TTL. Every method takes the cache
  and returns the updated cache; a method that reads the clock takes the reading
  \<open>now\<close> of \<open>datetime.utcnow()\<close> as an argument.
\<close>

type_synonym key = string
type_synonym entry = "pyval \<times> datetime option"

record cache =
  store :: "key \<rightharpoonup> entry"

definition Cache_init :: cache where
  "Cache_init = \<lparr>store = Map.empty\<rparr>"

text \<open>
  \<open>set\<close> reads the clock only when a TTL is given. The sum \<open>now + timedelta(seconds=ttl)\<close>
  is the one place where it can raise.
\<close>

definition cache_set :: "cache \<Rightarrow> datetime \<Rightarrow> key \<Rightarrow> pyval \<Rightarrow> int option \<Rightarrow> error + cache" where
  "cache_set c now k v ttl =
     (case ttl of
        None \<Rightarrow> Inr (c\<lparr>store := (store c)(k \<mapsto> (v, None))\<rparr>)
      | Some s \<Rightarrow>
          (case timedelta_seconds s of
             Inl e \<Rightarrow> Inl e
           | Inr d \<Rightarrow>
               (case datetime_add now d of
                  Inl e \<Rightarrow> Inl e
                | Inr expires_at \<Rightarrow> Inr (c\<lparr>store := (store c)(k \<mapsto> (v, Some expires_at))\<rparr>))))"

text \<open>\<open>delete\<close> is \<open>self._store.pop(key, None)\<close>: a missing key is not an error.\<close>

definition cache_delete :: "cache \<Rightarrow> key \<Rightarrow> cache" where
  "cache_delete c k = c\<lparr>store := (store c)(k := None)\<rparr>"

text \<open>
  \<open>get\<close> returns a Python value: \<open>None\<close> stands for an absent or expired entry. The
  stored pair is a 2-tuple and therefore truthy, so \<open>not entry\<close> holds exactly when the
  key is missing.
\<close>

definition cache_get :: "cache \<Rightarrow> datetime \<Rightarrow> key \<Rightarrow> pyval \<times> cache" where
  "cache_get c now k =
     (case store c k of
        None \<Rightarrow> (PyNone, c)
      | Some (v, expires_at) \<Rightarrow>
          (case expires_at of
             Some e \<Rightarrow> if now > e then (PyNone, cache_delete c k) else (v, c)
           | None \<Rightarrow> (v, c)))"

definition cache_clear :: "cache \<Rightarrow> cache" where
  "cache_clear c = c\<lparr>store := Map.empty\<rparr>"

section \<open>The product read path (cache.py)\<close>

text \<open>\<open>str(n)\<close> for an integer, as the f-strings of the module format it.\<close>

definition digit_char :: "nat \<Rightarrow> char" where
  "digit_char d = ''0123456789'' ! d"

function str_of_nat :: "nat \<Rightarrow> string" where
  "str_of_nat n = (if n < 10 then [digit_char n] else str_of_nat (n div 10) @ [digit_char (n mod 10)])"
  by pat_completeness auto
termination
  by (relation "measure id") auto

declare str_of_nat.simps [simp del]

definition str_of_int :: "int \<Rightarrow> string" where
  "str_of_int i = (if i < 0 then CHR ''-'' # str_of_nat (nat (- i)) else str_of_nat (nat i))"

text \<open>
  \<open>fetch_product_from_source\<close> builds the product dictionary after a sleep of one
  second. Its price is the float \<open>round(100 + product_id * 1.5, 2)\<close>; float arithmetic is
  not modelled, so the evaluation of that expression is the parameter \<open>price\<close>, which
  gives the double or the exception the expression raises (\<open>OverflowError\<close> for an
  integer too large to convert to a float). The sleep shows only as the later clock
  reading of the \<open>set\<close> that follows.
\<close>

definition fetch_product_from_source :: "(int \<Rightarrow> error + 64 word) \<Rightarrow> int \<Rightarrow> error + pyval" where
  "fetch_product_from_source price product_id =
     (case price product_id of
        Inl e \<Rightarrow> Inl e
      | Inr p \<Rightarrow>
          Inr (PyDict
            [(''id'', PyInt product_id),
             (''name'', PyStr (''Product '' @ str_of_int product_id)),
             (''price'', PyFloat p),
             (''source'', PyStr ''database'')]))"

text \<open>
  The dictionary display \<open>{**d, "from_cache": b}\<close>: the unpacked operand must be a
  mapping, otherwise \<open>TypeError\<close>; the key \<open>from_cache\<close> is overwritten in place
  or appended.
\<close>

definition with_from_cache :: "pyval \<Rightarrow> bool \<Rightarrow> error + pyval" where
  "with_from_cache d b =
     (case d of
        PyDict items \<Rightarrow> Inr (PyDict (AList.update ''from_cache'' (PyBool b) items))
      | _ \<Rightarrow> Inl TypeError)"

definition product_key :: "int \<Rightarrow> key" where
  "product_key product_id = ''product:'' @ str_of_int product_id"

text \<open>
  One request to \<open>/products/{product_id}\<close>, run without interleaving. Besides the
  response (or the exception that leaves the handler) the model returns the cache
  afterwards and the calls the handler made, in order. \<open>t_get\<close> and \<open>t_set\<close> are the
  clock readings inside \<open>cache.get\<close> and \<open>cache.set\<close>.
\<close>

datatype call =
    CallGet key
  | CallProduce int
  | CallSet key pyval "int option"

record outcome =
  response :: "error + pyval"
  cache_after :: cache
  calls :: "call list"

definition get_product ::
  "(int \<Rightarrow> error + 64 word) \<Rightarrow> cache \<Rightarrow> datetime \<Rightarrow> datetime \<Rightarrow> int \<Rightarrow> outcome" where
  "get_product price c t_get t_set product_id =
     (let cache_key = product_key product_id;
          (cached, c1) = cache_get c t_get cache_key
      in if cached \<noteq> PyNone
         then \<lparr>response = with_from_cache cached True, cache_after = c1,
               calls = [CallGet cache_key]\<rparr>
         else (case fetch_product_from_source price product_id of
                 Inl e \<Rightarrow>
                   \<lparr>response = Inl e, cache_after = c1,
                    calls = [CallGet cache_key, CallProduce product_id]\<rparr>
               | Inr product \<Rightarrow>
                   (case cache_set c1 t_set cache_key product (Some 30) of
                      Inl e \<Rightarrow>
                        \<lparr>response = Inl e, cache_after = c1,
                         calls = [CallGet cache_key, CallProduce product_id,
                                  CallSet cache_key product (Some 30)]\<rparr>
                    | Inr c2 \<Rightarrow>
                        \<lparr>response = with_from_cache product False, cache_after = c2,
                         calls = [CallGet cache_key, CallProduce product_id,
                                  CallSet cache_key product (Some 30)]\<rparr>)))"

definition clear_cache :: "cache \<Rightarrow> pyval \<times> cache" where
  "clear_cache c = (PyDict [(''detail'', PyStr ''Cache cleared'')], cache_clear c)"

text \<open>
  The states of the shared \<open>cache_instance\<close>: only the two endpoints touch it.
\<close>

inductive app_reachable :: "cache \<Rightarrow> bool" where
  app_init: "app_reachable Cache_init"
| app_product: "app_reachable c \<Longrightarrow> app_reachable (cache_after (get_product price c t_get t_set product_id))"
| app_clear: "app_reachable c \<Longrightarrow> app_reachable (snd (clear_cache c))"

section \<open>The notification endpoint (notiifcation.py)\<close>

record NotifyRequestModel =
  email :: string
  message :: string

text \<open>
  The handler subscripts its argument: \<open>request['email']\<close>. A subscription looks an
  item up in a dictionary (\<open>KeyError\<close> when the key is missing), but an instance of a
  pydantic model has no \<open>__getitem__\<close> (\<open>BaseModel\<close> defines none), so subscripting
  it raises \<open>TypeError\<close> whatever the field name; its fields are attributes.
\<close>

datatype pyobject =
    DictObject "(string \<times> pyval) list"
  | ModelInstance NotifyRequestModel

definition subscript :: "pyobject \<Rightarrow> string \<Rightarrow> error + pyval" where
  "subscript obj name =
     (case obj of
        DictObject items \<Rightarrow>
          (case map_of items name of None \<Rightarrow> Inl KeyError | Some v \<Rightarrow> Inr v)
      | ModelInstance m \<Rightarrow> Inl TypeError)"

text \<open>A queued background task: the function \<open>send_notification\<close> with its two arguments.\<close>

datatype task = SendNotification pyval pyval

definition add_task :: "task list \<Rightarrow> task \<Rightarrow> task list" where
  "add_task backgroundtask t = backgroundtask @ [t]"

text \<open>
  \<open>send_notification\<close> sleeps, prints and returns \<open>True\<close>; it leaves
  \<open>notification_log\<close> as it is.
\<close>

definition send_notification :: "pyval \<Rightarrow> pyval \<Rightarrow> string list \<Rightarrow> bool \<times> string list" where
  "send_notification em msg notification_log = (True, notification_log)"

text \<open>
  The handler of \<open>POST /notify\<close> (the function \<open>email\<close> of the module). FastAPI
  passes the parsed body as a \<open>NotifyRequestModel\<close>, that is, a \<open>ModelInstance\<close>.
\<close>

definition email_endpoint :: "pyobject \<Rightarrow> task list \<Rightarrow> error + (pyval \<times> task list)" where
  "email_endpoint request backgroundtask =
     (case subscript request ''email'' of
        Inl e \<Rightarrow> Inl e
      | Inr em \<Rightarrow>
          (case subscript request ''message'' of
             Inl e \<Rightarrow> Inl e
           | Inr msg \<Rightarrow>
               Inr (PyDict [(''detail'', PyStr ''Notification scheduled'')],
                    add_task backgroundtask (SendNotification em msg))))"

section \<open>The rate limiter (rate_limiter.py)\<close>

text \<open>
  \<open>request.client\<close> is an address or \<open>None\<close>; reading \<open>.host\<close> of \<open>None\<close> raises
  \<open>AttributeError\<close>.
\<close>

record address =
  host :: string
  port :: int

record request =
  client :: "address option"

record rate_limiter =
  limit :: int
  window :: timedelta
  requests :: "string \<rightharpoonup> (int \<times> datetime)"

definition RateLimiter_init :: "int \<Rightarrow> int \<Rightarrow> error + rate_limiter" where
  "RateLimiter_init lim window_seconds =
     (case timedelta_seconds window_seconds of
        Inl e \<Rightarrow> Inl e
      | Inr w \<Rightarrow> Inr \<lparr>limit = lim, window = w, requests = Map.empty\<rparr>)"

text \<open>\<open>check\<close> returns the updated limiter, or the exception it raises. \<open>now\<close> is \<open>datetime.now()\<close>.\<close>

definition check :: "rate_limiter \<Rightarrow> datetime \<Rightarrow> request \<Rightarrow> error + rate_limiter" where
  "check rl now req =
     (case client req of
        None \<Rightarrow> Inl AttributeError
      | Some a \<Rightarrow>
          (let client_ip = host a in
           case requests rl client_ip of
             None \<Rightarrow> Inr (rl\<lparr>requests := (requests rl)(client_ip \<mapsto> (1, now))\<rparr>)
           | Some (count, window_start) \<Rightarrow>
               (let elapsed = now - window_start in
                if elapsed \<ge> window rl
                then Inr (rl\<lparr>requests := (requests rl)(client_ip \<mapsto> (1, now))\<rparr>)
                else if count \<ge> limit rl
                then Inl (HTTPException 429 ''Rate limit exceeded'')
                else Inr (rl\<lparr>requests := (requests rl)(client_ip \<mapsto> (count + 1, window_start))\<rparr>))))"

text \<open>The limiters that the module can hold: constructed, then updated by \<open>check\<close>.\<close>

inductive rl_reachable :: "rate_limiter \<Rightarrow> bool" where
  rl_init: "RateLimiter_init lim window_seconds = Inr rl \<Longrightarrow> rl_reachable rl"
| rl_check: "rl_reachable rl \<Longrightarrow> check rl now req = Inr rl' \<Longrightarrow> rl_reachable rl'"

section \<open>Properties of the cache engine\<close>

lemma cache_get_absent: "store c k = None \<Longrightarrow> cache_get c now k = (PyNone, c)"
  by (simp add: cache_get_def)

lemma cache_get_no_ttl: "store c k = Some (v, None) \<Longrightarrow> cache_get c now k = (v, c)"
  by (simp add: cache_get_def)

lemma cache_get_ttl:
  "store c k = Some (v, Some e) \<Longrightarrow>
   cache_get c now k = (if e < now then (PyNone, cache_delete c k) else (v, c))"
  by (simp add: cache_get_def)

lemma store_cache_delete: "store (cache_delete c k) k = None"
  by (simp add: cache_delete_def)

lemma cache_delete_absent: "store c k = None \<Longrightarrow> cache_delete c k = c"
  by (simp add: cache_delete_def fun_upd_idem)

text \<open>
  Claim C1. When \<open>get(k)\<close> runs at clock reading \<open>now\<close> on an entry \<open>(v, expiresAt)\<close>,
  the test is the strict comparison \<open>now > expiresAt\<close>: if it fails the stored value is
  returned and the cache is left as it is, if it holds the result is \<open>None\<close> and the
  entry is removed. So the entry is still in the store after the call exactly when
  \<open>now\<close> is not strictly greater than \<open>expiresAt\<close>, it is served at the expiry
  instant itself, and a value other than \<open>None\<close> is the result exactly in that case.
\<close>

theorem C1_get_strict_expiry:
  assumes "store c k = Some (v, Some expiresAt)"
  shows "cache_get c now k = (if now > expiresAt then (PyNone, cache_delete c k) else (v, c))
    \<and> ((store (snd (cache_get c now k)) k = Some (v, Some expiresAt)) = (\<not> now > expiresAt))
    \<and> (v \<noteq> PyNone \<longrightarrow> (fst (cache_get c now k) = v) = (\<not> now > expiresAt))
    \<and> cache_get c expiresAt k = (v, c)
    \<and> (now > expiresAt \<longrightarrow> fst (cache_get c now k) = PyNone)"
  using assms by (auto simp: cache_get_ttl store_cache_delete)

text \<open>
  An instance of C1: an entry that expires at instant 100 is served at 100 and is absent
  at 101.
\<close>

theorem C1_get_strict_expiry_witness:
  "cache_get \<lparr>store = [''a'' \<mapsto> (PyInt 7, Some 100)]\<rparr> 100 ''a''
     = (PyInt 7, \<lparr>store = [''a'' \<mapsto> (PyInt 7, Some 100)]\<rparr>)
   \<and> fst (cache_get \<lparr>store = [''a'' \<mapsto> (PyInt 7, Some 100)]\<rparr> 101 ''a'') = PyNone"
  using C1_get_strict_expiry [of "\<lparr>store = [''a'' \<mapsto> (PyInt 7, Some 100)]\<rparr>" "''a''" "PyInt 7" 100 101]
  by simp

text \<open>
  Claim C3. \<open>set(k, v)\<close> without TTL always returns, and in the cache it leaves every
  \<open>get(k)\<close>, at whatever clock reading, returns \<open>v\<close> and leaves the cache as it is; so
  any number of later reads, however late, still return \<open>v\<close>.
\<close>

theorem C3_no_ttl_never_expires:
  "\<exists>c'. cache_set c now k v None = Inr c' \<and> (\<forall>now'. cache_get c' now' k = (v, c'))"
  by (simp add: cache_set_def cache_get_no_ttl)

text \<open>
  Claim C4. If the entry of \<open>k\<close> is expired when \<open>get(k)\<close> is called, the call returns
  \<open>None\<close> and removes that entry and no other. In the cache it leaves, every further
  \<open>get(k)\<close> returns \<open>None\<close> again and changes nothing, and deleting \<open>k\<close> once more
  is a no-op (no operation of the model can raise here).
\<close>

theorem C4_expired_get_removes:
  assumes "store c k = Some (v, Some e)" and "e < now"
  shows "cache_get c now k = (PyNone, cache_delete c k)
    \<and> store (cache_delete c k) k = None
    \<and> (\<forall>k'. k' \<noteq> k \<longrightarrow> store (cache_delete c k) k' = store c k')
    \<and> (\<forall>now'. cache_get (cache_delete c k) now' k = (PyNone, cache_delete c k))
    \<and> cache_delete (cache_delete c k) k = cache_delete c k"
  using assms
  by (simp add: cache_get_ttl cache_get_absent store_cache_delete cache_delete_absent)
     (simp add: cache_delete_def)

text \<open>
  An instance of C4: the entry of \<open>a\<close> expired at 100; reads at 101 and at 500 both give
  \<open>None\<close>, and the entry of \<open>b\<close> stays.
\<close>

theorem C4_expired_get_removes_witness:
  "cache_get \<lparr>store = [''a'' \<mapsto> (PyInt 7, Some 100), ''b'' \<mapsto> (PyInt 8, None)]\<rparr> 101 ''a''
     = (PyNone, \<lparr>store = [''b'' \<mapsto> (PyInt 8, None)]\<rparr>)
   \<and> cache_get \<lparr>store = [''b'' \<mapsto> (PyInt 8, None)]\<rparr> 500 ''a''
     = (PyNone, \<lparr>store = [''b'' \<mapsto> (PyInt 8, None)]\<rparr>)"
  using C4_expired_get_removes
    [of "\<lparr>store = [''a'' \<mapsto> (PyInt 7, Some 100), ''b'' \<mapsto> (PyInt 8, None)]\<rparr>" "''a''" "PyInt 7" 100 101]
  by (simp add: cache_delete_def cache_get_def)

text \<open>
  Claim C7. \<open>clear()\<close> empties the store, so afterwards \<open>get(k)\<close> returns \<open>None\<close> for
  every key, whatever entry (with or without TTL, expired or not) it held before; the
  endpoint \<open>/cache/clear\<close> does exactly this.
\<close>

theorem C7_clear_removes_all:
  "store (cache_clear c) k = None \<and> cache_get (cache_clear c) now k = (PyNone, cache_clear c)
   \<and> snd (clear_cache c) = cache_clear c"
  by (simp add: cache_clear_def cache_get_def clear_cache_def)

text \<open>
  When the clock reading and the expiry instant are both datetimes, neither the
  \<open>timedelta\<close> nor the sum overflows, and \<open>set\<close> returns.
\<close>

lemma timedelta_seconds_in_range:
  assumes "valid_datetime now" and "valid_datetime (now + s * us_per_second)"
  shows "timedelta_seconds s = Inr (s * us_per_second)"
proof -
  from assms have lo: "- 315537897600 \<le> s" and hi: "s \<le> 315537897600"
    unfolding valid_datetime_def datetime_max_def us_per_second_def seconds_per_day_def
    by arith+
  from lo have "- 999999999 \<le> s div 86400" by arith
  moreover from hi have "s div 86400 \<le> 999999999" by arith
  ultimately show ?thesis
    by (simp add: timedelta_seconds_def seconds_per_day_def max_delta_days_def)
qed

lemma cache_set_ttl_returns:
  assumes "valid_datetime now" and "valid_datetime (now + ttl * us_per_second)"
  shows "cache_set c now k v (Some ttl)
           = Inr (c\<lparr>store := (store c)(k \<mapsto> (v, Some (now + ttl * us_per_second)))\<rparr>)"
  using assms timedelta_seconds_in_range [OF assms]
  by (simp add: cache_set_def datetime_add_def)

text \<open>Otherwise the sum leaves the range of \<open>datetime\<close> and \<open>set\<close> raises.\<close>

lemma cache_set_ttl_raises:
  assumes "\<not> valid_datetime (now + ttl * us_per_second)"
  shows "cache_set c now k v (Some ttl) = Inl OverflowError"
  using assms
  by (simp add: cache_set_def datetime_add_def timedelta_seconds_def split: sum.splits)

text \<open>
  Claim C2, as amended. \<open>set(k, v, ttl)\<close> with \<open>ttl \<le> 0\<close> whose expiry instant
  is a datetime returns and stores an entry with \<open>expiresAt \<le> now\<close>. A \<open>get(k)\<close>
  at a clock reading \<open>now' \<ge> now\<close> returns \<open>None\<close> and deletes the entry when
  \<open>ttl < 0\<close>, or when \<open>ttl = 0\<close> and the clock has moved past the instant of the
  \<open>set\<close>; with \<open>ttl = 0\<close> and the same clock reading it returns \<open>v\<close>, because the
  expiry test is strict.
\<close>

theorem C2_nonpositive_ttl:
  assumes "valid_datetime now" and "valid_datetime (now + ttl * us_per_second)"
    and "ttl \<le> 0" and "now \<le> now'"
  shows "\<exists>c' expiresAt.
      cache_set c now k v (Some ttl) = Inr c'
    \<and> store c' k = Some (v, Some expiresAt) \<and> expiresAt \<le> now
    \<and> (ttl < 0 \<or> now < now' \<longrightarrow>
         cache_get c' now' k = (PyNone, cache_delete c' k) \<and> store (cache_delete c' k) k = None)
    \<and> (ttl = 0 \<and> now' = now \<longrightarrow> cache_get c' now' k = (v, c'))"
proof -
  let ?e = "now + ttl * us_per_second"
  let ?c' = "c\<lparr>store := (store c)(k \<mapsto> (v, Some ?e))\<rparr>"
  have set: "cache_set c now k v (Some ttl) = Inr ?c'"
    using assms(1,2) by (rule cache_set_ttl_returns)
  have st: "store ?c' k = Some (v, Some ?e)" by simp
  have le: "?e \<le> now" using assms(3) by (simp add: us_per_second_def)
  have lt: "ttl < 0 \<or> now < now' \<Longrightarrow> ?e < now'"
    using assms(3,4) by (auto simp: us_per_second_def)
  have expired: "ttl < 0 \<or> now < now' \<Longrightarrow> cache_get ?c' now' k = (PyNone, cache_delete ?c' k)"
    using lt cache_get_ttl [OF st, of now'] by simp
  have same: "ttl = 0 \<and> now' = now \<Longrightarrow> cache_get ?c' now' k = (v, ?c')"
    using cache_get_ttl [OF st, of now'] by simp
  show ?thesis
    using set st le expired same store_cache_delete [of ?c' k] by blast
qed

text \<open>
  The claim C2 as stated fails: \<open>set(k, 1, 0)\<close> and \<open>get(k)\<close> at the same clock
  reading (noon of 2026-11-04) give the value 1, not \<open>None\<close>.
\<close>

theorem C2_zero_ttl_counterexample:
  "cache_set Cache_init 63929390400000000 ''k'' (PyInt 1) (Some 0)
     = Inr \<lparr>store = [''k'' \<mapsto> (PyInt 1, Some 63929390400000000)]\<rparr>
   \<and> cache_get \<lparr>store = [''k'' \<mapsto> (PyInt 1, Some 63929390400000000)]\<rparr> 63929390400000000 ''k''
     = (PyInt 1, \<lparr>store = [''k'' \<mapsto> (PyInt 1, Some 63929390400000000)]\<rparr>)
   \<and> PyInt 1 \<noteq> PyNone"
  by (simp add: cache_set_def cache_get_def Cache_init_def timedelta_seconds_def datetime_add_def
      valid_datetime_def datetime_max_def seconds_per_day_def us_per_second_def max_delta_days_def)

text \<open>
  An instance of the amended C2: a TTL of \<open>-1\<close> second, read back at the clock reading
  of the \<open>set\<close>.
\<close>

theorem C2_nonpositive_ttl_witness:
  "cache_get \<lparr>store = [''k'' \<mapsto> (PyInt 1, Some 63929390399000000)]\<rparr> 63929390400000000 ''k''
     = (PyNone, \<lparr>store = Map.empty\<rparr>)
  \<and> cache_set Cache_init 63929390400000000 ''k'' (PyInt 1) (Some (- 1))
     = Inr \<lparr>store = [''k'' \<mapsto> (PyInt 1, Some 63929390399000000)]\<rparr>"
  using C2_nonpositive_ttl [of 63929390400000000 "- 1" 63929390400000000 Cache_init "''k''" "PyInt 1"]
  by (simp add: cache_set_def cache_get_def Cache_init_def timedelta_seconds_def datetime_add_def
      valid_datetime_def datetime_max_def seconds_per_day_def us_per_second_def max_delta_days_def
      cache_delete_def)

section \<open>Properties of the product read path\<close>

text \<open>The four ways through \<open>get_product\<close>.\<close>

lemma get_product_hit:
  assumes "fst (cache_get c t_get (product_key pid)) \<noteq> PyNone"
  shows "get_product price c t_get t_set pid =
    \<lparr>response = with_from_cache (fst (cache_get c t_get (product_key pid))) True,
     cache_after = snd (cache_get c t_get (product_key pid)),
     calls = [CallGet (product_key pid)]\<rparr>"
  using assms by (simp add: get_product_def Let_def split_beta)

lemma get_product_miss_fail:
  assumes "fst (cache_get c t_get (product_key pid)) = PyNone"
    and "fetch_product_from_source price pid = Inl e"
  shows "get_product price c t_get t_set pid =
    \<lparr>response = Inl e,
     cache_after = snd (cache_get c t_get (product_key pid)),
     calls = [CallGet (product_key pid), CallProduce pid]\<rparr>"
  using assms by (simp add: get_product_def Let_def split_beta)

lemma get_product_miss_stored:
  assumes "fst (cache_get c t_get (product_key pid)) = PyNone"
    and "fetch_product_from_source price pid = Inr product"
    and "cache_set (snd (cache_get c t_get (product_key pid))) t_set (product_key pid) product (Some 30) = Inr c2"
  shows "get_product price c t_get t_set pid =
    \<lparr>response = with_from_cache product False,
     cache_after = c2,
     calls = [CallGet (product_key pid), CallProduce pid, CallSet (product_key pid) product (Some 30)]\<rparr>"
  using assms by (simp add: get_product_def Let_def split_beta)

lemma get_product_miss_set_raises:
  assumes "fst (cache_get c t_get (product_key pid)) = PyNone"
    and "fetch_product_from_source price pid = Inr product"
    and "cache_set (snd (cache_get c t_get (product_key pid))) t_set (product_key pid) product (Some 30) = Inl e"
  shows "get_product price c t_get t_set pid =
    \<lparr>response = Inl e,
     cache_after = snd (cache_get c t_get (product_key pid)),
     calls = [CallGet (product_key pid), CallProduce pid, CallSet (product_key pid) product (Some 30)]\<rparr>"
  using assms by (simp add: get_product_def Let_def split_beta)

lemma fetch_product_is_dict:
  "fetch_product_from_source price pid = Inr product \<Longrightarrow> \<exists>items. product = PyDict items"
  by (auto simp: fetch_product_from_source_def split: sum.splits)

text \<open>
  Every value in a reachable cache is a dictionary: \<open>get\<close> only removes entries, and
  the only \<open>set\<close> stores a product.
\<close>

lemma cache_get_store_subset:
  "store (snd (cache_get c now k)) k' = Some x \<Longrightarrow> store c k' = Some x"
  by (auto simp: cache_get_def cache_delete_def split: option.splits if_splits prod.splits)

lemma cache_get_hit_stored:
  "fst (cache_get c now k) \<noteq> PyNone \<Longrightarrow> \<exists>e. store c k = Some (fst (cache_get c now k), e)"
  by (auto simp: cache_get_def split: option.splits if_splits prod.splits)

lemma cache_set_store:
  "cache_set c now k v ttl = Inr c' \<Longrightarrow> store c' k' = Some (w, e) \<Longrightarrow> k' \<noteq> k \<Longrightarrow> store c k' = Some (w, e)"
  by (auto simp: cache_set_def split: option.splits sum.splits)

lemma cache_set_store_same:
  "cache_set c now k v ttl = Inr c' \<Longrightarrow> store c' k = Some (w, e) \<Longrightarrow> w = v"
  by (auto simp: cache_set_def split: option.splits sum.splits)

lemma get_product_stores_dicts:
  assumes inv: "\<And>k v e. store c k = Some (v, e) \<Longrightarrow> \<exists>items. v = PyDict items"
    and st: "store (cache_after (get_product price c t_get t_set pid)) k = Some (v, e)"
  shows "\<exists>items. v = PyDict items"
proof (cases "fst (cache_get c t_get (product_key pid)) = PyNone")
  case False
  with st inv show ?thesis
    by (auto simp: get_product_hit dest: cache_get_store_subset)
next
  case miss: True
  show ?thesis
  proof (cases "fetch_product_from_source price pid")
    case (Inl err)
    with miss st inv show ?thesis
      by (auto simp: get_product_miss_fail dest: cache_get_store_subset)
  next
    case (Inr product)
    show ?thesis
    proof (cases "cache_set (snd (cache_get c t_get (product_key pid))) t_set (product_key pid) product (Some 30)")
      case (Inl err)
      with miss Inr st inv show ?thesis
        by (auto simp: get_product_miss_set_raises dest: cache_get_store_subset)
    next
      case set: (Inr c2)
      from miss Inr set st have st2: "store c2 k = Some (v, e)"
        by (simp add: get_product_miss_stored)
      show ?thesis
      proof (cases "k = product_key pid")
        case True
        with set st2 have "v = product" by (auto dest: cache_set_store_same)
        with Inr show ?thesis by (auto dest: fetch_product_is_dict)
      next
        case False
        have "store (snd (cache_get c t_get (product_key pid))) k = Some (v, e)"
          by (rule cache_set_store [OF set st2 False])
        then show ?thesis using inv by (auto dest: cache_get_store_subset)
      qed
    qed
  qed
qed

lemma app_reachable_dicts:
  "app_reachable c \<Longrightarrow> store c k = Some (v, e) \<Longrightarrow> \<exists>items. v = PyDict items"
proof (induction arbitrary: k v e rule: app_reachable.induct)
  case app_init
  then show ?case by (simp add: Cache_init_def)
next
  case (app_product c price t_get t_set product_id)
  show ?case
    by (rule get_product_stores_dicts [OF app_product.IH app_product.prems])
next
  case (app_clear c)
  then show ?case by (simp add: clear_cache_def cache_clear_def)
qed

lemma with_from_cache_dict:
  "with_from_cache (PyDict items) b = Inr (PyDict (AList.update ''from_cache'' (PyBool b) items))"
  by (simp add: with_from_cache_def)

text \<open>
  Claim C5. A request for any product identifier, on any state of the shared cache and
  with the clock of the \<open>set\<close> at a datetime from which 30 seconds can still be
  added, first calls \<open>get\<close> on the key \<open>product:<id>\<close>. If \<open>get\<close> returns a
  value, the response is that dictionary with \<open>from_cache\<close> set to \<open>True\<close>, \<open>get\<close>
  is the only call made (the producer is not invoked) and nothing is stored. If it
  returns \<open>None\<close> and the producer returns a product, the calls are \<open>get\<close>, the
  producer and \<open>set(key, product, ttl=30)\<close>, the entry is stored with expiry 30 seconds
  after the clock reading of the \<open>set\<close>, and the response is the product with
  \<open>from_cache\<close> set to \<open>False\<close>.
\<close>

theorem C5_read_path:
  assumes "app_reachable c" and "valid_datetime t_set"
    and "valid_datetime (t_set + 30 * us_per_second)"
  shows
    "let cache_key = product_key pid;
         cached = fst (cache_get c t_get cache_key);
         c1 = snd (cache_get c t_get cache_key);
         out = get_product price c t_get t_set pid
     in hd (calls out) = CallGet cache_key
      \<and> (cached \<noteq> PyNone \<longrightarrow>
            (\<exists>items. cached = PyDict items
               \<and> response out = Inr (PyDict (AList.update ''from_cache'' (PyBool True) items)))
          \<and> calls out = [CallGet cache_key]
          \<and> cache_after out = c1)
      \<and> (\<forall>product. cached = PyNone \<and> fetch_product_from_source price pid = Inr product \<longrightarrow>
            (\<exists>items. product = PyDict items
               \<and> response out = Inr (PyDict (AList.update ''from_cache'' (PyBool False) items)))
          \<and> calls out = [CallGet cache_key, CallProduce pid, CallSet cache_key product (Some 30)]
          \<and> cache_set c1 t_set cache_key product (Some 30) = Inr (cache_after out)
          \<and> store (cache_after out) cache_key = Some (product, Some (t_set + 30 * us_per_second)))"
proof -
  let ?key = "product_key pid"
  let ?cached = "fst (cache_get c t_get ?key)"
  let ?c1 = "snd (cache_get c t_get ?key)"
  let ?out = "get_product price c t_get t_set pid"
  have first: "hd (calls ?out) = CallGet ?key"
    by (simp add: get_product_def Let_def split_beta split: sum.splits)
  have hit: "(\<exists>items. ?cached = PyDict items
               \<and> response ?out = Inr (PyDict (AList.update ''from_cache'' (PyBool True) items)))
          \<and> calls ?out = [CallGet ?key] \<and> cache_after ?out = ?c1"
    if present: "?cached \<noteq> PyNone"
  proof -
    from cache_get_hit_stored [OF present] obtain e where "store c ?key = Some (?cached, e)" ..
    with assms(1) obtain items where "?cached = PyDict items"
      by (blast dest: app_reachable_dicts)
    then show ?thesis
      using get_product_hit [OF present, of price t_set]
      by (simp add: with_from_cache_dict)
  qed
  have miss: "(\<exists>items. product = PyDict items
               \<and> response ?out = Inr (PyDict (AList.update ''from_cache'' (PyBool False) items)))
          \<and> calls ?out = [CallGet ?key, CallProduce pid, CallSet ?key product (Some 30)]
          \<and> cache_set ?c1 t_set ?key product (Some 30) = Inr (cache_after ?out)
          \<and> store (cache_after ?out) ?key = Some (product, Some (t_set + 30 * us_per_second))"
    if absent: "?cached = PyNone" and produced: "fetch_product_from_source price pid = Inr product"
    for product
  proof -
    let ?c2 = "?c1\<lparr>store := (store ?c1)(?key \<mapsto> (product, Some (t_set + 30 * us_per_second)))\<rparr>"
    have set: "cache_set ?c1 t_set ?key product (Some 30) = Inr ?c2"
      using assms(2,3) by (rule cache_set_ttl_returns)
    from fetch_product_is_dict [OF produced] obtain items where "product = PyDict items" ..
    then show ?thesis
      using get_product_miss_stored [OF absent produced set] set
      by (simp add: with_from_cache_dict)
  qed
  show ?thesis
    unfolding Let_def using first hit miss by blast
qed

text \<open>
  An instance of C5: product 1 is requested on the empty cache (a miss, stored with
  TTL 30), and again ten seconds later (a hit).
\<close>

theorem C5_read_path_witness:
  "response (get_product (\<lambda>i. Inr 0x4059600000000000) Cache_init
       63929390400000000 63929390401000000 1)
     = Inr (PyDict [(''id'', PyInt 1), (''name'', PyStr ''Product 1''),
                    (''price'', PyFloat 0x4059600000000000), (''source'', PyStr ''database''),
                    (''from_cache'', PyBool False)])
   \<and> response (get_product (\<lambda>i. Inr 0x4059600000000000)
        (cache_after (get_product (\<lambda>i. Inr 0x4059600000000000) Cache_init
           63929390400000000 63929390401000000 1))
        63929390411000000 63929390412000000 1)
     = Inr (PyDict [(''id'', PyInt 1), (''name'', PyStr ''Product 1''),
                    (''price'', PyFloat 0x4059600000000000), (''source'', PyStr ''database''),
                    (''from_cache'', PyBool True)])"
proof -
  let ?price = "\<lambda>i::int. Inr (0x4059600000000000 :: 64 word) :: error + 64 word"
  let ?c1 = "cache_after (get_product ?price Cache_init 63929390400000000 63929390401000000 1)"
  have r0: "app_reachable Cache_init" by (rule app_init)
  have r1: "app_reachable ?c1" by (rule app_product [OF app_init])
  have v1: "valid_datetime 63929390401000000"
    and v2: "valid_datetime (63929390401000000 + 30 * us_per_second)"
    and v3: "valid_datetime 63929390412000000"
    and v4: "valid_datetime (63929390412000000 + 30 * us_per_second)"
    by (simp_all add: valid_datetime_def datetime_max_def seconds_per_day_def us_per_second_def)
  have key: "product_key 1 = ''product:1''"
    by (simp add: product_key_def str_of_int_def str_of_nat.simps digit_char_def)
  have prod: "fetch_product_from_source ?price 1
     = Inr (PyDict [(''id'', PyInt 1), (''name'', PyStr ''Product 1''),
                    (''price'', PyFloat 0x4059600000000000), (''source'', PyStr ''database'')])"
    by (simp add: fetch_product_from_source_def str_of_int_def str_of_nat.simps digit_char_def)
  have miss: "cache_get Cache_init 63929390400000000 ''product:1'' = (PyNone, Cache_init)"
    by (simp add: cache_get_def Cache_init_def)
  have c1: "?c1 = \<lparr>store = [''product:1'' \<mapsto>
      (PyDict [(''id'', PyInt 1), (''name'', PyStr ''Product 1''),
               (''price'', PyFloat 0x4059600000000000), (''source'', PyStr ''database'')],
       Some 63929390431000000)]\<rparr>"
    using C5_read_path [OF r0 v1 v2, of 1 63929390400000000 ?price]
    by (simp add: Let_def key prod cache_get_def Cache_init_def us_per_second_def cache_set_def
        timedelta_seconds_def datetime_add_def valid_datetime_def datetime_max_def
        seconds_per_day_def max_delta_days_def)
  have hit: "cache_get ?c1 63929390411000000 ''product:1''
     = (PyDict [(''id'', PyInt 1), (''name'', PyStr ''Product 1''),
               (''price'', PyFloat 0x4059600000000000), (''source'', PyStr ''database'')], ?c1)"
    unfolding c1 by (simp add: cache_get_def)
  show ?thesis
    using C5_read_path [OF r0 v1 v2, of 1 63929390400000000 ?price]
      C5_read_path [OF r1 v3 v4, of 1 63929390411000000 ?price]
    by (simp add: Let_def key prod miss hit)
qed









section \<open>Properties of the notification endpoint and of the rate limiter\<close>

lemma check_first:
  "requests rl ip = None \<Longrightarrow>
   check rl now \<lparr>client = Some \<lparr>host = ip, port = p\<rparr>\<rparr>
     = Inr (rl\<lparr>requests := (requests rl)(ip \<mapsto> (1, now))\<rparr>)"
  by (simp add: check_def)

lemma check_known:
  "requests rl ip = Some (count, windowStart) \<Longrightarrow>
   check rl now \<lparr>client = Some \<lparr>host = ip, port = p\<rparr>\<rparr>
     = (if now - windowStart \<ge> window rl
        then Inr (rl\<lparr>requests := (requests rl)(ip \<mapsto> (1, now))\<rparr>)
        else if count \<ge> limit rl
        then Inl (HTTPException 429 ''Rate limit exceeded'')
        else Inr (rl\<lparr>requests := (requests rl)(ip \<mapsto> (count + 1, windowStart))\<rparr>))"
  by (simp add: check_def)

text \<open>Counts start at 1 and only grow within a window, so every stored count is positive.\<close>

lemma check_counts_positive:
  assumes inv: "\<And>ip n ws. requests rl ip = Some (n, ws) \<Longrightarrow> 1 \<le> n"
    and step: "check rl now req = Inr rl'"
    and entry: "requests rl' ip = Some (n, ws)"
  shows "1 \<le> n"
proof (cases "client req")
  case None
  with step show ?thesis by (simp add: check_def)
next
  case (Some a)
  show ?thesis
  proof (cases "requests rl (host a)")
    case None
    with Some step have "rl' = rl\<lparr>requests := (requests rl)(host a \<mapsto> (1, now))\<rparr>"
      by (simp add: check_def)
    with entry inv show ?thesis by (cases "ip = host a") auto
  next
    case known: (Some pair)
    obtain c0 w0 where pair: "pair = (c0, w0)" by (cases pair)
    from inv known pair have c0: "1 \<le> c0" by blast
    from Some known pair step
    have "rl' = rl\<lparr>requests := (requests rl)(host a \<mapsto> (1, now))\<rparr>
        \<or> rl' = rl\<lparr>requests := (requests rl)(host a \<mapsto> (c0 + 1, w0))\<rparr>"
      by (auto simp: check_def Let_def split: if_splits)
    with entry inv c0 show ?thesis by (cases "ip = host a") auto
  qed
qed

lemma rl_reachable_counts_positive:
  "rl_reachable rl \<Longrightarrow> requests rl ip = Some (n, ws) \<Longrightarrow> 1 \<le> n"
proof (induction arbitrary: ip n ws rule: rl_reachable.induct)
  case (rl_init lim window_seconds rl)
  then show ?case
    by (auto simp: RateLimiter_init_def split: sum.splits)
next
  case (rl_check rl now req rl')
  show ?case
    by (rule check_counts_positive [OF rl_check.IH rl_check.hyps(2) rl_check.prems])
qed

text \<open>
  Claim C9. For a client that has a pair \<open>(count, windowStart)\<close> in a limiter the
  module can hold, \<open>check\<close> at clock reading \<open>now\<close> resets the pair to \<open>(1, now)\<close>
  when \<open>now - windowStart \<ge> window\<close>; otherwise it raises the 429 error when
  \<open>count \<ge> limit\<close>, and otherwise stores \<open>(count + 1, windowStart)\<close>. The pair
  after the call is \<open>(1, now)\<close> exactly when \<open>now - windowStart \<ge> window\<close>.
\<close>

theorem C9_fixed_window:
  assumes "rl_reachable rl" and "requests rl ip = Some (count, windowStart)"
  shows
    "check rl now \<lparr>client = Some \<lparr>host = ip, port = p\<rparr>\<rparr>
       = (if now - windowStart \<ge> window rl
          then Inr (rl\<lparr>requests := (requests rl)(ip \<mapsto> (1, now))\<rparr>)
          else if count \<ge> limit rl
          then Inl (HTTPException 429 ''Rate limit exceeded'')
          else Inr (rl\<lparr>requests := (requests rl)(ip \<mapsto> (count + 1, windowStart))\<rparr>))
     \<and> ((\<exists>rl'. check rl now \<lparr>client = Some \<lparr>host = ip, port = p\<rparr>\<rparr> = Inr rl'
              \<and> requests rl' ip = Some (1, now))
         = (now - windowStart \<ge> window rl))"
proof -
  from assms have "1 \<le> count" by (rule rl_reachable_counts_positive)
  then show ?thesis
    by (auto simp: check_known [OF assms(2)])
qed

text \<open>
  An instance of C9: limit 10 per 60 seconds, first request at instant 100; a request
  60 seconds later resets the window, one a microsecond earlier is counted in it.
\<close>

theorem C9_fixed_window_witness:
  "check \<lparr>limit = 10, window = 60000000, requests = [''10.0.0.1'' \<mapsto> (1, 100)]\<rparr> 60000100
       \<lparr>client = Some \<lparr>host = ''10.0.0.1'', port = 4000\<rparr>\<rparr>
     = Inr \<lparr>limit = 10, window = 60000000, requests = [''10.0.0.1'' \<mapsto> (1, 60000100)]\<rparr>
   \<and> check \<lparr>limit = 10, window = 60000000, requests = [''10.0.0.1'' \<mapsto> (1, 100)]\<rparr> 60000099
       \<lparr>client = Some \<lparr>host = ''10.0.0.1'', port = 4000\<rparr>\<rparr>
     = Inr \<lparr>limit = 10, window = 60000000, requests = [''10.0.0.1'' \<mapsto> (2, 100)]\<rparr>"
proof -
  let ?rl0 = "\<lparr>limit = 10, window = 60000000, requests = Map.empty\<rparr>"
  let ?rl1 = "\<lparr>limit = 10, window = 60000000, requests = [''10.0.0.1'' \<mapsto> (1, 100)]\<rparr>"
  let ?req = "\<lparr>client = Some \<lparr>host = ''10.0.0.1'', port = 4000\<rparr>\<rparr>"
  have "RateLimiter_init 10 60 = Inr ?rl0"
    by (simp add: RateLimiter_init_def timedelta_seconds_def seconds_per_day_def
        max_delta_days_def us_per_second_def)
  then have r0: "rl_reachable ?rl0" by (rule rl_init)
  have "check ?rl0 100 ?req = Inr ?rl1" by (simp add: check_def)
  with r0 have r1: "rl_reachable ?rl1" by (rule rl_check)
  have entry: "requests ?rl1 ''10.0.0.1'' = Some (1, 100)" by simp
  show ?thesis
    using C9_fixed_window [OF r1 entry, of 60000100 4000] C9_fixed_window [OF r1 entry, of 60000099 4000]
    by simp
qed

text \<open>
  The handler raises on every model instance, before it reaches \<open>add_task\<close>. Its body
  would run on a dictionary with the two keys, which is not what FastAPI passes.
\<close>

lemma email_endpoint_model_raises:
  "email_endpoint (ModelInstance m) backgroundtask = Inl TypeError"
  by (simp add: email_endpoint_def subscript_def)

lemma email_endpoint_on_dict:
  "email_endpoint (DictObject [(''email'', em), (''message'', msg)]) backgroundtask
     = Inr (PyDict [(''detail'', PyStr ''Notification scheduled'')],
            backgroundtask @ [SendNotification em msg])"
  by (simp add: email_endpoint_def subscript_def add_task_def)

text \<open>
  Claim C8 fails on the code. The handler subscripts the request model, so for the
  request body of the module's own example it raises \<open>TypeError\<close>: no task is queued
  and no confirmation is returned.
\<close>

theorem C8_notify_raises:
  "email_endpoint
     (ModelInstance \<lparr>email = ''user@example.com'', message = ''Welcome to FastAPI''\<rparr>) []
     = Inl TypeError"
  by (simp add: email_endpoint_def subscript_def)

end
